theory Spec2Isabelle
  imports Main "HOL-Library.Word"
begin

unbundle bit_operations_syntax

section \<open>The Voltas A/C protocol: state model\<close>

text \<open>
  A shallow embedding of \<^verbatim>\<open>ir_Voltas.h\<close> and \<^verbatim>\<open>ir_Voltas.cpp\<close>. Values of C++ type
  \<^verbatim>\<open>uint8_t\<close> are \<open>8 word\<close>, values of type \<^verbatim>\<open>uint16_t\<close> are \<open>16 word\<close>; a byte buffer
  (\<^verbatim>\<open>uint8_t[]\<close>) is a list of bytes read with \<open>!\<close>; where a result depends on the
  bytes that are read, the theorem says how long the buffer has to be.
\<close>

type_synonym byte = "8 word"
type_synonym uint16 = "16 word"

text \<open>
  The source files use constants that neither of them declares. The ones the
  specification gives a value for are fixed here; the others are collected in the
  record \<open>ext_consts\<close>, which every operation that uses one takes as its first argument.
\<close>

text \<open>Modelled from the spec: the constant \<^verbatim>\<open>kVoltasStateLength\<close> is declared outside the
  source files; the state is "exactly 10 bytes".\<close>

definition kVoltasStateLength :: uint16 where
  "kVoltasStateLength = 10"

text \<open>Modelled from the spec: the constant \<^verbatim>\<open>kVoltasBits\<close> is declared outside the source
  files; strict mode requires "that the bit count equals exactly 80 (10 bytes)".\<close>

definition kVoltasBits :: uint16 where
  "kVoltasBits = 80"

text \<open>
  The mode, fan and temperature constants are used as \<^verbatim>\<open>case\<close> labels of a switch over
  a \<^verbatim>\<open>uint8_t\<close>, as arguments of \<^verbatim>\<open>setMode(const uint8_t)\<close> and \<^verbatim>\<open>setFan(const uint8_t)\<close>
  and as arguments of \<^verbatim>\<open>std::max\<close>/\<^verbatim>\<open>std::min\<close> next to a \<^verbatim>\<open>uint8_t\<close>, so they are bytes.
  \<^verbatim>\<open>kDefaultMessageGap\<close> is only handed on to the pulse engine.
\<close>

record ext_consts =
  kVoltasFan :: byte
  kVoltasHeat :: byte
  kVoltasDry :: byte
  kVoltasCool :: byte
  kVoltasMinTemp :: byte
  kVoltasMaxTemp :: byte
  kVoltasFanHigh :: byte
  kVoltasFanMed :: byte
  kVoltasFanLow :: byte
  kVoltasFanAuto :: byte
  kDefaultMessageGap :: nat

text \<open>
  \<^verbatim>\<open>union VoltasProtocol\<close> overlays \<^verbatim>\<open>uint8_t raw[kVoltasStateLength]\<close> with a struct of
  bit-fields. The state is modelled as the \<^verbatim>\<open>raw\<close> array; a bit-field is a byte index,
  the offset of its lowest bit and its width. Bit-fields are allocated from the least
  significant bit of each byte in declaration order, which is the layout of the
  specification's table (bit 0 = LSB).
\<close>

type_synonym VoltasProtocol = "byte list"

datatype field =
    SwingH | Unknown0
  | Mode | FanSpeed
  | SwingV | Wifi | Turbo | Sleep | Power
  | Temp | Unknown3 | Econo | TempSet
  | OffTimer24h4
  | OffTimer24h5 | TimerAdd12Hr
  | TimerHrs
  | Light | OffTimerEnable
  | Checksum

text \<open>\<open>field_byte\<close>, \<open>field_off\<close> and \<open>field_width\<close> transcribe the struct of the header:
  the widths are the declared ones, the offset of a field is the sum of the widths
  declared before it in the same byte (unnamed padding fields included).\<close>

fun field_byte :: "field \<Rightarrow> nat" where
  "field_byte SwingH = 0"
| "field_byte Unknown0 = 0"
| "field_byte Mode = 1"
| "field_byte FanSpeed = 1"
| "field_byte SwingV = 2"
| "field_byte Wifi = 2"
| "field_byte Turbo = 2"
| "field_byte Sleep = 2"
| "field_byte Power = 2"
| "field_byte Temp = 3"
| "field_byte Unknown3 = 3"
| "field_byte Econo = 3"
| "field_byte TempSet = 3"
| "field_byte OffTimer24h4 = 4"
| "field_byte OffTimer24h5 = 5"
| "field_byte TimerAdd12Hr = 5"
| "field_byte TimerHrs = 7"
| "field_byte Light = 8"
| "field_byte OffTimerEnable = 8"
| "field_byte Checksum = 9"

fun field_off :: "field \<Rightarrow> nat" where
  "field_off SwingH = 0"
| "field_off Unknown0 = 1"
| "field_off Mode = 0"
| "field_off FanSpeed = 5"
| "field_off SwingV = 0"
| "field_off Wifi = 3"
| "field_off Turbo = 5"
| "field_off Sleep = 6"
| "field_off Power = 7"
| "field_off Temp = 0"
| "field_off Unknown3 = 4"
| "field_off Econo = 6"
| "field_off TempSet = 7"
| "field_off OffTimer24h4 = 0"
| "field_off OffTimer24h5 = 0"
| "field_off TimerAdd12Hr = 7"
| "field_off TimerHrs = 4"
| "field_off Light = 5"
| "field_off OffTimerEnable = 6"
| "field_off Checksum = 0"

fun field_width :: "field \<Rightarrow> nat" where
  "field_width SwingH = 1"
| "field_width Unknown0 = 7"
| "field_width Mode = 4"
| "field_width FanSpeed = 3"
| "field_width SwingV = 3"
| "field_width Wifi = 1"
| "field_width Turbo = 1"
| "field_width Sleep = 1"
| "field_width Power = 1"
| "field_width Temp = 4"
| "field_width Unknown3 = 2"
| "field_width Econo = 1"
| "field_width TempSet = 1"
| "field_width OffTimer24h4 = 1"
| "field_width OffTimer24h5 = 1"
| "field_width TimerAdd12Hr = 1"
| "field_width TimerHrs = 4"
| "field_width Light = 1"
| "field_width OffTimerEnable = 1"
| "field_width Checksum = 8"

text \<open>The bits of its byte that a field occupies.\<close>

definition field_mask :: "field \<Rightarrow> byte" where
  "field_mask f = push_bit (field_off f) (mask (field_width f))"

text \<open>Reading a bit-field (\<^verbatim>\<open>_.F\<close>): the field's bits, moved down to bit 0.\<close>

definition get_field :: "VoltasProtocol \<Rightarrow> field \<Rightarrow> byte" where
  "get_field s f = drop_bit (field_off f) (s ! field_byte f) AND mask (field_width f)"

text \<open>Assigning to a bit-field (\<^verbatim>\<open>_.F = v\<close>): the value is truncated to the field's
  width and replaces the field's bits; the other bits of the byte stay.\<close>

definition set_field :: "VoltasProtocol \<Rightarrow> field \<Rightarrow> byte \<Rightarrow> VoltasProtocol" where
  "set_field s f v =
     s[field_byte f :=
         (s ! field_byte f AND NOT (field_mask f))
           OR push_bit (field_off f) (v AND mask (field_width f))]"

text \<open>A \<^verbatim>\<open>bool\<close> converts to 1 or 0 when assigned to a bit-field, and a one-bit field
  converts to \<^verbatim>\<open>true\<close> exactly when it is not 0.\<close>

definition of_bool_byte :: "bool \<Rightarrow> byte" where
  "of_bool_byte b = (if b then 1 else 0)"

definition get_flag :: "VoltasProtocol \<Rightarrow> field \<Rightarrow> bool" where
  "get_flag s f = (get_field s f \<noteq> 0)"

section \<open>Checksum\<close>

text \<open>Modelled from the spec: \<^verbatim>\<open>sumBytes\<close> is a helper of the repository's utility module
  and not in the source files. The specification describes the call in \<^verbatim>\<open>calcChecksum\<close>
  as "the 8-bit unsigned sum of \<^verbatim>\<open>buffer[0..length-2]\<close> ... modulo 256", the call being
  \<^verbatim>\<open>sumBytes(state, length - 1)\<close>: the helper adds the first \<open>n\<close> bytes of the buffer
  in an 8-bit accumulator that starts at 0.\<close>

definition sumBytes :: "byte list \<Rightarrow> uint16 \<Rightarrow> byte" where
  "sumBytes start n = foldl (\<lambda>acc i. acc + start ! i) 0 [0..<unat n]"

text \<open>\<^verbatim>\<open>calcChecksum\<close>: \<^verbatim>\<open>result\<close> starts at 0, is the sum of the first \<^verbatim>\<open>length - 1\<close>
  bytes when \<^verbatim>\<open>length\<close> is not 0, and is returned complemented.\<close>

definition calcChecksum :: "byte list \<Rightarrow> uint16 \<Rightarrow> byte" where
  "calcChecksum state len =
     (let result = (if len \<noteq> 0 then sumBytes state (len - 1) else 0)
      in NOT result)"

definition validChecksum :: "byte list \<Rightarrow> uint16 \<Rightarrow> bool" where
  "validChecksum state len =
     (if len \<noteq> 0 then state ! (unat len - 1) = calcChecksum state len else True)"

section \<open>The class IRVoltas\<close>

text \<open>The object's only modelled member is the state \<^verbatim>\<open>_\<close>; a method that changes it
  returns the new state.\<close>

definition stateReset :: "VoltasProtocol" where
  "stateReset = replicate (unat kVoltasStateLength) 0"

text \<open>\<^verbatim>\<open>setRaw\<close> copies \<^verbatim>\<open>kVoltasStateLength\<close> bytes; the caller has to supply that many.\<close>

definition setRaw :: "byte list \<Rightarrow> VoltasProtocol" where
  "setRaw new_code = take (unat kVoltasStateLength) new_code"

definition checksum :: "VoltasProtocol \<Rightarrow> VoltasProtocol" where
  "checksum s = set_field s Checksum (calcChecksum s (kVoltasStateLength - 1))"

text \<open>\<^verbatim>\<open>getRaw\<close> updates the checksum and returns a pointer to the state: the buffer the
  caller sees is the new state.\<close>

definition getRaw :: "VoltasProtocol \<Rightarrow> VoltasProtocol" where
  "getRaw s = checksum s"

definition setPower :: "bool \<Rightarrow> VoltasProtocol \<Rightarrow> VoltasProtocol" where
  "setPower on s = set_field s Power (of_bool_byte on)"

definition getPower :: "VoltasProtocol \<Rightarrow> bool" where
  "getPower s = get_flag s Power"

definition setLight :: "bool \<Rightarrow> VoltasProtocol \<Rightarrow> VoltasProtocol" where
  "setLight on s = set_field s Light (of_bool_byte on)"

definition getLight :: "VoltasProtocol \<Rightarrow> bool" where
  "getLight s = get_flag s Light"

definition setWifi :: "bool \<Rightarrow> VoltasProtocol \<Rightarrow> VoltasProtocol" where
  "setWifi on s = set_field s Wifi (of_bool_byte on)"

definition getWifi :: "VoltasProtocol \<Rightarrow> bool" where
  "getWifi s = get_flag s Wifi"

definition setTurbo :: "bool \<Rightarrow> VoltasProtocol \<Rightarrow> VoltasProtocol" where
  "setTurbo on s = set_field s Turbo (of_bool_byte on)"

definition getTurbo :: "VoltasProtocol \<Rightarrow> bool" where
  "getTurbo s = get_flag s Turbo"

definition setEcono :: "bool \<Rightarrow> VoltasProtocol \<Rightarrow> VoltasProtocol" where
  "setEcono on s = set_field s Econo (of_bool_byte on)"

definition getEcono :: "VoltasProtocol \<Rightarrow> bool" where
  "getEcono s = get_flag s Econo"

text \<open>\<^verbatim>\<open>setMode\<close>: the four \<^verbatim>\<open>case\<close> labels fall through to the assignment; the
  \<^verbatim>\<open>default\<close> branch calls \<^verbatim>\<open>setMode(kVoltasCool)\<close> and returns.\<close>

function setMode :: "ext_consts \<Rightarrow> byte \<Rightarrow> VoltasProtocol \<Rightarrow> VoltasProtocol" where
  "setMode K mode s =
     (if mode = kVoltasFan K \<or> mode = kVoltasHeat K \<or> mode = kVoltasDry K
         \<or> mode = kVoltasCool K
      then set_field s Mode mode
      else setMode K (kVoltasCool K) s)"
  by pat_completeness auto
termination
  by (relation "measure (\<lambda>(K, mode, s).
        if mode = kVoltasFan K \<or> mode = kVoltasHeat K \<or> mode = kVoltasDry K
           \<or> mode = kVoltasCool K then 0 else 1)") auto

declare setMode.simps [simp del]

definition getMode :: "VoltasProtocol \<Rightarrow> byte" where
  "getMode s = get_field s Mode"

text \<open>\<^verbatim>\<open>setTemp\<close>: \<^verbatim>\<open>std::max\<close> and \<^verbatim>\<open>std::min\<close> on \<^verbatim>\<open>uint8_t\<close>, then the difference
  (computed in \<^verbatim>\<open>int\<close>) truncated to the four bits of the field, which are the low four
  bits of the 8-bit difference.\<close>

definition setTemp :: "ext_consts \<Rightarrow> byte \<Rightarrow> VoltasProtocol \<Rightarrow> VoltasProtocol" where
  "setTemp K temp s =
     (let new_temp = max (kVoltasMinTemp K) temp;
          new_temp = min (kVoltasMaxTemp K) new_temp
      in set_field s Temp (new_temp - kVoltasMinTemp K))"

text \<open>\<^verbatim>\<open>getTemp\<close> returns \<^verbatim>\<open>_.Temp + kVoltasMinTemp\<close> as a \<^verbatim>\<open>uint8_t\<close>: the sum modulo 256.\<close>

definition getTemp :: "ext_consts \<Rightarrow> VoltasProtocol \<Rightarrow> byte" where
  "getTemp K s = get_field s Temp + kVoltasMinTemp K"

function setFan :: "ext_consts \<Rightarrow> byte \<Rightarrow> VoltasProtocol \<Rightarrow> VoltasProtocol" where
  "setFan K fan s =
     (if fan = kVoltasFanLow K \<or> fan = kVoltasFanMed K \<or> fan = kVoltasFanHigh K
         \<or> fan = kVoltasFanAuto K
      then set_field s FanSpeed fan
      else setFan K (kVoltasFanAuto K) s)"
  by pat_completeness auto
termination
  by (relation "measure (\<lambda>(K, fan, s).
        if fan = kVoltasFanLow K \<or> fan = kVoltasFanMed K \<or> fan = kVoltasFanHigh K
           \<or> fan = kVoltasFanAuto K then 0 else 1)") auto

declare setFan.simps [simp del]

definition getFan :: "VoltasProtocol \<Rightarrow> byte" where
  "getFan s = get_field s FanSpeed"

section \<open>Conversions to the protocol-independent summary\<close>

text \<open>The enumerators of \<^verbatim>\<open>stdAc::fanspeed_t\<close> that the source file names.\<close>

datatype fanspeed_t = kAuto | kMin | kLow | kMedium | kHigh | kMax

fun convertFan :: "ext_consts \<Rightarrow> fanspeed_t \<Rightarrow> byte" where
  "convertFan K kMin = kVoltasFanLow K"
| "convertFan K kLow = kVoltasFanLow K"
| "convertFan K kMedium = kVoltasFanMed K"
| "convertFan K kHigh = kVoltasFanHigh K"
| "convertFan K kMax = kVoltasFanHigh K"
| "convertFan K _ = kVoltasFanAuto K"

text \<open>A switch over a byte with three labels; the labels of a switch are pairwise
  different in any program that compiles, so the order of the tests does not matter
  there. The model tests them in the order of the source.\<close>

definition toCommonFanSpeed :: "ext_consts \<Rightarrow> byte \<Rightarrow> fanspeed_t" where
  "toCommonFanSpeed K spd =
     (if spd = kVoltasFanHigh K then kMax
      else if spd = kVoltasFanMed K then kMedium
      else if spd = kVoltasFanLow K then kMin
      else kAuto)"

datatype decode_type_t = UNKNOWN | VOLTAS

text \<open>Of \<^verbatim>\<open>stdAc::swingh_t\<close> the source file names \<^verbatim>\<open>kOff\<close> only.\<close>

datatype swingh_t = swingh_kOff | swingh_other nat

typedecl opmode_t
typedecl swingv_t

text \<open>Modelled from the spec: the struct \<^verbatim>\<open>stdAc::state_t\<close> is declared outside the source
  files. Its fields are the ones \<^verbatim>\<open>toCommon\<close> assigns and the ones the specification
  lists as unsupported (mode, vertical swing, clean, sleep). \<^verbatim>\<open>toCommon\<close> declares its
  result without an initialiser and then assigns field by field, so each field is an
  option: \<open>None\<close> is a field that \<^verbatim>\<open>toCommon\<close> never assigned. \<^verbatim>\<open>degrees\<close> holds the byte
  that \<^verbatim>\<open>getTemp\<close> returned.\<close>

record state_t =
  protocol :: "decode_type_t option"
  model :: "int option"
  power :: "bool option"
  mode :: "opmode_t option"
  degrees :: "byte option"
  celsius :: "bool option"
  fanspeed :: "fanspeed_t option"
  swingv :: "swingv_t option"
  swingh :: "swingh_t option"
  quiet :: "bool option"
  turbo :: "bool option"
  econo :: "bool option"
  light :: "bool option"
  filter_fld :: "bool option"
  clean :: "bool option"
  beep :: "bool option"
  sleep :: "int option"
  clock :: "int option"

definition unassigned :: state_t where
  "unassigned =
     \<lparr>protocol = None, model = None, power = None, mode = None, degrees = None,
      celsius = None, fanspeed = None, swingv = None, swingh = None, quiet = None,
      turbo = None, econo = None, light = None, filter_fld = None, clean = None,
      beep = None, sleep = None, clock = None\<rparr>"

definition toCommon :: "ext_consts \<Rightarrow> VoltasProtocol \<Rightarrow> state_t" where
  "toCommon K s =
     (let result = unassigned;
          result = result\<lparr>protocol := Some VOLTAS\<rparr>;
          result = result\<lparr>power := Some (get_flag s Power)\<rparr>;
          result = result\<lparr>celsius := Some True\<rparr>;
          result = result\<lparr>degrees := Some (getTemp K s)\<rparr>;
          result = result\<lparr>fanspeed := Some (toCommonFanSpeed K (get_field s FanSpeed))\<rparr>;
          result = result\<lparr>turbo := Some (get_flag s Turbo)\<rparr>;
          result = result\<lparr>econo := Some (get_flag s Econo)\<rparr>;
          result = result\<lparr>light := Some (get_flag s Light)\<rparr>;
          result = result\<lparr>model := Some (- 1)\<rparr>;
          result = result\<lparr>swingh := Some swingh_kOff\<rparr>;
          result = result\<lparr>quiet := Some False\<rparr>;
          result = result\<lparr>filter_fld := Some False\<rparr>;
          result = result\<lparr>beep := Some False\<rparr>;
          result = result\<lparr>clock := Some (- 1)\<rparr>
      in result)"

section \<open>Decoding\<close>

definition kVoltasBitMark :: nat where "kVoltasBitMark = 1026"
definition kVoltasOneSpace :: nat where "kVoltasOneSpace = 2553"
definition kVoltasZeroSpace :: nat where "kVoltasZeroSpace = 554"
definition kVoltasFreq :: nat where "kVoltasFreq = 38000"

text \<open>The fields of \<^verbatim>\<open>decode_results\<close> that \<^verbatim>\<open>decodeVoltas\<close> reads or writes.\<close>

record decode_results =
  rawbuf :: "uint16 list"
  rawlen :: uint16
  state :: "byte list"
  decode_type :: decode_type_t
  bits :: uint16

text \<open>
  \<^verbatim>\<open>matchGeneric\<close> is the generic pulse engine, outside this protocol's files, and is a
  parameter of the model. It is given the captured durations from \<^verbatim>\<open>offset\<close> on, the
  contents of the result buffer, the number of remaining entries, the expected number
  of bits, the eight timing arguments of the call in their order and the \<^verbatim>\<open>atleast\<close>
  flag; it answers with the value it returns (0 for no match) and the contents it
  leaves in the result buffer.
\<close>

type_synonym matchGeneric_t =
  "uint16 list \<Rightarrow> byte list \<Rightarrow> uint16 \<Rightarrow> uint16 \<Rightarrow> nat list \<Rightarrow> bool \<Rightarrow> uint16 \<times> byte list"

definition decodeVoltas ::
  "matchGeneric_t \<Rightarrow> ext_consts \<Rightarrow> decode_results \<Rightarrow> uint16 \<Rightarrow> uint16 \<Rightarrow> bool
     \<Rightarrow> bool \<times> decode_results" where
  "decodeVoltas matchGeneric K results offset nbits strict =
     (if strict \<and> nbits \<noteq> kVoltasBits then (False, results)
      else
        let (used, buf) =
              matchGeneric (drop (unat offset) (rawbuf results)) (state results)
                (rawlen results - offset) nbits
                [0, 0, kVoltasBitMark, kVoltasOneSpace, kVoltasBitMark, kVoltasZeroSpace,
                 kVoltasBitMark, kDefaultMessageGap K] True;
            results = results\<lparr>state := buf\<rparr>
        in if used = 0 then (False, results)
           else if strict \<and> \<not> validChecksum (state results) (nbits div 8)
           then (False, results)
           else (True, results\<lparr>decode_type := VOLTAS, bits := nbits\<rparr>))"

section \<open>Setter calls and concrete constants\<close>

text \<open>The documented field setters as data, so that a property can be stated for every
  one of them: \<open>run_setter\<close> performs the call, \<open>written_field\<close> is the bit-field the
  setter's body assigns to.\<close>

datatype setter_call =
    SetPower bool
  | SetMode byte
  | SetTemp byte
  | SetFan byte
  | SetTurbo bool
  | SetEcono bool
  | SetWifi bool
  | SetLight bool

fun run_setter :: "ext_consts \<Rightarrow> setter_call \<Rightarrow> VoltasProtocol \<Rightarrow> VoltasProtocol" where
  "run_setter K (SetPower on) s = setPower on s"
| "run_setter K (SetMode m) s = setMode K m s"
| "run_setter K (SetTemp t) s = setTemp K t s"
| "run_setter K (SetFan f) s = setFan K f s"
| "run_setter K (SetTurbo on) s = setTurbo on s"
| "run_setter K (SetEcono on) s = setEcono on s"
| "run_setter K (SetWifi on) s = setWifi on s"
| "run_setter K (SetLight on) s = setLight on s"

fun written_field :: "setter_call \<Rightarrow> field" where
  "written_field (SetPower _) = Power"
| "written_field (SetMode _) = Mode"
| "written_field (SetTemp _) = Temp"
| "written_field (SetFan _) = FanSpeed"
| "written_field (SetTurbo _) = Turbo"
| "written_field (SetEcono _) = Econo"
| "written_field (SetWifi _) = Wifi"
| "written_field (SetLight _) = Light"

text \<open>The bits of byte \<open>i\<close> of the state that belong to field \<open>f\<close>.\<close>

definition frame_mask :: "field \<Rightarrow> nat \<Rightarrow> byte" where
  "frame_mask f i = (if i = field_byte f then field_mask f else 0)"

text \<open>One choice of the constants that the source files do not declare, for running the
  model on concrete inputs: four one-hot modes, temperatures from 16 to 30 degrees and
  fan speeds of three bits.\<close>

definition example_consts :: ext_consts where
  "example_consts =
     \<lparr>kVoltasFan = 1, kVoltasHeat = 2, kVoltasDry = 4, kVoltasCool = 8,
      kVoltasMinTemp = 16, kVoltasMaxTemp = 30,
      kVoltasFanHigh = 1, kVoltasFanMed = 2, kVoltasFanLow = 4, kVoltasFanAuto = 7,
      kDefaultMessageGap = 100000\<rparr>"

text \<open>The message of the documentation comment of \<^verbatim>\<open>sendVoltas\<close>.\<close>

definition fixture :: "byte list" where
  "fixture = [0x33, 0x28, 0x88, 0x1A, 0x3B, 0x3B, 0x3B, 0x11, 0x00, 0x40]"

text \<open>A pulse engine that ignores the capture and answers with a fixed return value
  and fixed buffer contents; it stands in for \<^verbatim>\<open>matchGeneric\<close> where the decoder is run
  on a concrete input.\<close>

definition stub_engine :: "uint16 \<Rightarrow> byte list \<Rightarrow> matchGeneric_t" where
  "stub_engine used buf data_ptr result_ptr remaining nbits timing atleast = (used, buf)"

definition empty_results :: decode_results where
  "empty_results = \<lparr>rawbuf = [], rawlen = 0, state = [], decode_type = UNKNOWN, bits = 0\<rparr>"

section \<open>Bit-fields\<close>

lemma length_set_field: "length (set_field s f v) = length s"
  by (simp add: set_field_def)

lemma nth_set_field_other: "i \<noteq> field_byte f \<Longrightarrow> set_field s f v ! i = s ! i"
  by (simp add: set_field_def)

lemma field_write_keeps_rest:
  "((x AND NOT (push_bit n (mask w))) OR push_bit n (v AND mask w)) AND NOT (push_bit n (mask w))
     = x AND NOT (push_bit n (mask w :: byte))"
  by (rule bit_eqI) (auto simp: bit_simps)

lemma field_write_read:
  "n + w \<le> 8 \<Longrightarrow>
   drop_bit n ((x AND NOT (push_bit n (mask w))) OR push_bit n (v AND mask w)) AND mask w
     = (v AND mask w :: byte)"
  by (rule bit_eqI) (auto simp: bit_simps)

lemma field_fits: "field_off f + field_width f \<le> 8"
  by (cases f) simp_all

lemma field_byte_bound: "field_byte f < 10"
  by (cases f) simp_all

lemma get_set_field:
  "field_byte f < length s \<Longrightarrow> get_field (set_field s f v) f = v AND mask (field_width f)"
  unfolding get_field_def set_field_def field_mask_def
  by (simp only: nth_list_update_eq field_write_read [OF field_fits])

lemma set_field_frame:
  "set_field s f v ! i AND NOT (frame_mask f i) = s ! i AND NOT (frame_mask f i)"
proof (cases "i = field_byte f \<and> i < length s")
  case True
  then have b: "field_byte f < length s" and e: "i = field_byte f"
    by simp_all
  show ?thesis
    unfolding e set_field_def field_mask_def frame_mask_def
    by (simp only: nth_list_update_eq [OF b] simp_thms if_True field_write_keeps_rest)
next
  case False
  then consider "i \<noteq> field_byte f" | "length s \<le> field_byte f"
    by fastforce
  then show ?thesis
  proof cases
    case 1
    then show ?thesis
      by (simp add: set_field_def)
  next
    case 2
    then have "set_field s f v = s"
      unfolding set_field_def by (rule list_update_beyond)
    then show ?thesis
      by simp
  qed
qed

lemma whole_byte_write: "x AND NOT (mask 8) OR v AND mask 8 = (v :: byte)"
  by (rule bit_eqI) (auto simp: bit_simps dest: bit_imp_le_length)

lemma checksum_field_write: "set_field s Checksum v = s[9 := v]"
  by (simp add: set_field_def field_mask_def whole_byte_write)

section \<open>Checksum: what the code computes\<close>

lemma foldl_add_bytes:
  "foldl (\<lambda>acc i. acc + f i) (a :: byte) [0..<n] = a + word_of_nat (\<Sum>i<n. unat (f i))"
  by (induction n) (simp_all add: algebra_simps)

lemma byte_of_nat_mod: "(word_of_nat (x mod 256) :: byte) = word_of_nat x"
  by (simp add: word_of_nat_eq_iff take_bit_eq_mod)

text \<open>The 8-bit accumulator of \<open>sumBytes\<close> holds the sum of the bytes, as natural
  numbers, modulo 256.\<close>

lemma sumBytes_eq: "sumBytes start n = word_of_nat ((\<Sum>i<unat n. unat (start ! i)) mod 256)"
proof -
  have "sumBytes start n = word_of_nat (\<Sum>i<unat n. unat (start ! i))"
    by (simp add: sumBytes_def foldl_add_bytes)
  also have "\<dots> = word_of_nat ((\<Sum>i<unat n. unat (start ! i)) mod 256)"
    by (simp only: byte_of_nat_mod)
  finally show ?thesis .
qed

lemma calcChecksum_nonzero:
  "len \<noteq> 0 \<Longrightarrow> calcChecksum buffer len = NOT (sumBytes buffer (len - 1))"
  by (simp add: calcChecksum_def)

lemma unat_pred: "len \<noteq> 0 \<Longrightarrow> unat (len - 1 :: uint16) = unat len - 1"
  by (simp add: unat_minus_one)

lemma stateReset_eq: "stateReset = [0, 0, 0, 0, 0, 0, 0, 0, 0, 0]"
proof -
  have "stateReset = replicate 10 0"
    by (simp add: stateReset_def kVoltasStateLength_def)
  then show ?thesis
    by (simp add: eval_nat_numeral)
qed

text \<open>The definitions that evaluating the model on a concrete state unfolds.\<close>

lemmas run_simps =
  getRaw_def checksum_def set_field_def get_field_def get_flag_def field_mask_def
  calcChecksum_def validChecksum_def sumBytes_def kVoltasStateLength_def of_bool_byte_def
  upt_rec mask_numeral

text \<open>\<^verbatim>\<open>checksum()\<close> passes \<^verbatim>\<open>kVoltasStateLength - 1\<close> to \<^verbatim>\<open>calcChecksum\<close>, which takes one
  more off: for every state, \<^verbatim>\<open>getRaw\<close> stores the complement of the sum of bytes 0 to 7
  in byte 9, and byte 8 is not part of the sum.\<close>

lemma getRaw_eq:
  "getRaw s = s[9 := NOT (word_of_nat ((\<Sum>i<8. unat (s ! i)) mod 256))]"
proof -
  have a: "kVoltasStateLength - 1 \<noteq> 0" and b: "unat (kVoltasStateLength - 1 - 1) = 8"
    by (simp_all add: kVoltasStateLength_def)
  have "calcChecksum s (kVoltasStateLength - 1)
               = NOT (word_of_nat ((\<Sum>i<8. unat (s ! i)) mod 256))"
    by (simp only: calcChecksum_nonzero [OF a] sumBytes_eq b)
  then show ?thesis
    by (simp only: getRaw_def checksum_def checksum_field_write)
qed

text \<open>
  C1: for every state of the codec, the buffer that \<^verbatim>\<open>getRaw\<close> returns has in byte 9
  the complement of the 8-bit sum of bytes 0 to 8, which is \<^verbatim>\<open>calcChecksum\<close> of the
  buffer. The code does not do this. After \<^verbatim>\<open>stateReset\<close> and \<^verbatim>\<open>setLight(true)\<close>,
  byte 8 is \<open>0x20\<close>; \<^verbatim>\<open>getRaw\<close> stores \<open>0xFF\<close> in byte 9, the checksum of the 10-byte
  buffer is \<open>0xDF\<close>, and \<^verbatim>\<open>validChecksum\<close> rejects the buffer that \<^verbatim>\<open>getRaw\<close> returned.
\<close>

theorem getRaw_checksum_omits_byte_8:
  "getRaw (setLight True stateReset) = [0, 0, 0, 0, 0, 0, 0, 0, 0x20, 0xFF]
   \<and> calcChecksum (getRaw (setLight True stateReset)) kVoltasStateLength = 0xDF
   \<and> \<not> validChecksum (getRaw (setLight True stateReset)) kVoltasStateLength"
proof -
  have g: "getRaw (setLight True stateReset) = [0, 0, 0, 0, 0, 0, 0, 0, 0x20, 0xFF]"
    by (simp add: stateReset_eq setLight_def run_simps)
  show ?thesis
    unfolding g by (simp add: run_simps)
qed

text \<open>
  C2: for every buffer and every length of at least 1 (the buffer holding the bytes
  that are read), \<^verbatim>\<open>calcChecksum\<close> returns the bitwise complement of the sum, modulo
  256, of the bytes at positions 0 to \<open>length - 2\<close>; for the fixture and length 10 it
  returns \<open>0x40\<close>.
\<close>

theorem calcChecksum_spec:
  "(len \<noteq> 0 \<and> unat len - 1 \<le> length buffer \<longrightarrow>
      calcChecksum buffer len
        = NOT (word_of_nat ((\<Sum>i<unat len - 1. unat (buffer ! i)) mod 256)))
   \<and> calcChecksum [0x33, 0x28, 0x88, 0x1A, 0x3B, 0x3B, 0x3B, 0x11, 0x00, 0x40] 10 = 0x40"
proof (intro conjI impI)
  assume "len \<noteq> 0 \<and> unat len - 1 \<le> length buffer"
  then have a: "len \<noteq> 0"
    by simp
  show "calcChecksum buffer len
        = NOT (word_of_nat ((\<Sum>i<unat len - 1. unat (buffer ! i)) mod 256))"
    by (simp only: calcChecksum_nonzero [OF a] sumBytes_eq unat_pred [OF a])
next
  show "calcChecksum [0x33, 0x28, 0x88, 0x1A, 0x3B, 0x3B, 0x3B, 0x11, 0x00, 0x40] 10 = 0x40"
    by (simp add: calcChecksum_def sumBytes_def upt_rec)
qed

theorem calcChecksum_spec_witness:
  "(3 :: uint16) \<noteq> 0 \<and> unat (3 :: uint16) - 1 \<le> length [0xF0, 0x20, 0x77 :: byte]
   \<and> calcChecksum [0xF0, 0x20, 0x77] 3 = 0xEF
   \<and> NOT (word_of_nat ((\<Sum>i<unat (3 :: uint16) - 1. unat ([0xF0, 0x20, 0x77 :: byte] ! i)) mod 256))
       = (0xEF :: byte)"
  using calcChecksum_spec [of 3 "[0xF0, 0x20, 0x77]"]
  by (simp add: calcChecksum_def sumBytes_def upt_rec)

text \<open>
  C3, as amended: for every buffer, \<^verbatim>\<open>calcChecksum\<close> with length 0 returns \<open>0xFF\<close>,
  the complement of the initial value 0 of \<^verbatim>\<open>result\<close>. It does not return 0.
\<close>

theorem calcChecksum_zero_length: "calcChecksum buffer 0 = 0xFF"
  by (simp add: calcChecksum_def)

theorem calcChecksum_zero_length_counterexample: "calcChecksum [] 0 \<noteq> 0"
  by (simp add: calcChecksum_def)

section \<open>Decoding: what is accepted\<close>

text \<open>
  C4: in strict mode \<^verbatim>\<open>decodeVoltas\<close> returns true only if the expected bit count is 80,
  the pulse engine matched and \<^verbatim>\<open>validChecksum\<close> holds on the ten decoded bytes. It
  returns false when the bit count is not 80 (strict), when the engine reports no match,
  and when the checksum is invalid (strict); whenever it returns false, \<^verbatim>\<open>decode_type\<close>
  and \<^verbatim>\<open>bits\<close> of the results are the ones of the call, and when it returns true they
  are \<^verbatim>\<open>VOLTAS\<close> and the bit count. The result is always a boolean.
\<close>

theorem decodeVoltas_strict:
  "(let r = decodeVoltas matchGeneric K results offset nbits strict;
        m = matchGeneric (drop (unat offset) (rawbuf results)) (state results)
              (rawlen results - offset) nbits
              [0, 0, kVoltasBitMark, kVoltasOneSpace, kVoltasBitMark, kVoltasZeroSpace,
               kVoltasBitMark, kDefaultMessageGap K] True
    in (strict \<and> fst r \<longrightarrow> nbits = 80 \<and> fst m \<noteq> 0 \<and> validChecksum (state (snd r)) 10)
       \<and> (strict \<and> nbits \<noteq> 80 \<longrightarrow> \<not> fst r)
       \<and> (fst m = 0 \<longrightarrow> \<not> fst r)
       \<and> (strict \<and> \<not> validChecksum (snd m) (nbits div 8) \<longrightarrow> \<not> fst r)
       \<and> (\<not> fst r \<longrightarrow> decode_type (snd r) = decode_type results \<and> bits (snd r) = bits results)
       \<and> (fst r \<longrightarrow> decode_type (snd r) = VOLTAS \<and> bits (snd r) = nbits
                   \<and> state (snd r) = snd m))"
  by (auto simp: decodeVoltas_def Let_def kVoltasBits_def split: prod.splits)

lemma fixture_valid: "validChecksum fixture 10"
  by (simp add: fixture_def validChecksum_def calcChecksum_def sumBytes_def upt_rec)

lemma fixture_corrupted_invalid: "\<not> validChecksum (fixture[9 := 0]) 10"
  by (simp add: fixture_def validChecksum_def calcChecksum_def sumBytes_def upt_rec)

lemma decode_fixture:
  "decodeVoltas (stub_engine 162 fixture) example_consts empty_results 0 80 True
     = (True, empty_results\<lparr>state := fixture, decode_type := VOLTAS, bits := 80\<rparr>)"
  by (simp add: decodeVoltas_def stub_engine_def kVoltasBits_def fixture_valid)

lemma decode_fixture_72:
  "decodeVoltas (stub_engine 162 fixture) example_consts empty_results 0 72 True
     = (False, empty_results)"
  by (simp add: decodeVoltas_def kVoltasBits_def)

lemma decode_no_match:
  "decodeVoltas (stub_engine 0 []) example_consts empty_results 0 80 True
     = (False, empty_results\<lparr>state := []\<rparr>)"
  by (simp add: decodeVoltas_def stub_engine_def kVoltasBits_def)

lemma decode_corrupted:
  "decodeVoltas (stub_engine 162 (fixture[9 := 0])) example_consts empty_results 0 80 True
     = (False, empty_results\<lparr>state := fixture[9 := 0]\<rparr>)"
  by (simp add: decodeVoltas_def stub_engine_def kVoltasBits_def fixture_corrupted_invalid)

theorem decodeVoltas_strict_witness:
  "fst (decodeVoltas (stub_engine 162 fixture) example_consts empty_results 0 80 True)
   \<and> validChecksum
        (state (snd (decodeVoltas (stub_engine 162 fixture) example_consts empty_results 0 80 True)))
        10
   \<and> decode_type
        (snd (decodeVoltas (stub_engine 162 fixture) example_consts empty_results 0 80 True))
       = VOLTAS
   \<and> (72 :: uint16) \<noteq> 80
   \<and> \<not> fst (decodeVoltas (stub_engine 162 fixture) example_consts empty_results 0 72 True)
   \<and> decode_type
        (snd (decodeVoltas (stub_engine 162 fixture) example_consts empty_results 0 72 True))
       = decode_type empty_results
   \<and> \<not> fst (decodeVoltas (stub_engine 0 []) example_consts empty_results 0 80 True)
   \<and> \<not> fst (decodeVoltas (stub_engine 162 (fixture[9 := 0])) example_consts empty_results
              0 80 True)
   \<and> bits (snd (decodeVoltas (stub_engine 162 (fixture[9 := 0])) example_consts empty_results
                  0 80 True))
       = bits empty_results"
  using decodeVoltas_strict [of "stub_engine 162 fixture" example_consts empty_results 0 80 True]
    decodeVoltas_strict [of "stub_engine 162 fixture" example_consts empty_results 0 72 True]
    decodeVoltas_strict [of "stub_engine 0 []" example_consts empty_results 0 80 True]
    decodeVoltas_strict [of "stub_engine 162 (fixture[9 := 0])" example_consts empty_results 0 80 True]
  by (simp add: decode_fixture decode_fixture_72 decode_no_match decode_corrupted Let_def)

section \<open>Field setters\<close>

text \<open>The recursive call in the \<^verbatim>\<open>default\<close> branch of \<^verbatim>\<open>setMode\<close> and \<^verbatim>\<open>setFan\<close> lands in
  an accepted case, so each setter is one assignment to its bit-field.\<close>

lemma setMode_eq:
  "setMode K m s =
     set_field s Mode
       (if m = kVoltasFan K \<or> m = kVoltasHeat K \<or> m = kVoltasDry K \<or> m = kVoltasCool K
        then m else kVoltasCool K)"
  by (simp add: setMode.simps [of K m] setMode.simps [of K "kVoltasCool K"])

lemma setFan_eq:
  "setFan K f s =
     set_field s FanSpeed
       (if f = kVoltasFanLow K \<or> f = kVoltasFanMed K \<or> f = kVoltasFanHigh K
           \<or> f = kVoltasFanAuto K
        then f else kVoltasFanAuto K)"
  by (simp add: setFan.simps [of K f] setFan.simps [of K "kVoltasFanAuto K"])

lemma run_setter_eq: "\<exists>v. run_setter K c s = set_field s (written_field c) v"
  by (cases c)
    (auto simp: setPower_def setMode_eq setTemp_def setFan_eq setTurbo_def setEcono_def
       setWifi_def setLight_def Let_def)

lemma get_field_via_mask:
  "get_field s g = drop_bit (field_off g) (s ! field_byte g AND field_mask g)"
  unfolding get_field_def field_mask_def
  by (rule bit_eqI) (auto simp: bit_simps dest: bit_imp_le_length)

lemma disjoint_bits_agree:
  fixes a b g m :: byte
  assumes "a AND NOT m = b AND NOT m" and "g AND m = 0"
  shows "a AND g = b AND g"
proof (rule bit_eqI)
  fix n
  assume "possible_bit TYPE(byte) n"
  have 1: "bit (a AND NOT m) n = bit (b AND NOT m) n"
    using assms(1) by simp
  have 2: "\<not> bit (g AND m) n"
    using assms(2) by simp
  from 1 2 show "bit (a AND g) n = bit (b AND g) n"
    by (auto simp: bit_simps dest: bit_imp_le_length)
qed

lemma fields_disjoint:
  "g \<noteq> written_field c \<Longrightarrow>
   field_byte g \<noteq> field_byte (written_field c) \<or> field_mask g AND field_mask (written_field c) = 0"
  by (cases c; cases g; simp add: field_mask_def mask_numeral)

lemma get_other_field:
  assumes "g \<noteq> written_field c"
  shows "get_field (set_field s (written_field c) v) g = get_field s g"
proof (cases "field_byte g = field_byte (written_field c)")
  case False
  then show ?thesis
    by (simp add: get_field_def nth_set_field_other)
next
  case True
  with fields_disjoint [OF assms]
  have d: "field_mask g AND field_mask (written_field c) = 0"
    by simp
  have "set_field s (written_field c) v ! field_byte g AND NOT (field_mask (written_field c))
          = s ! field_byte g AND NOT (field_mask (written_field c))"
    using set_field_frame [of s "written_field c" v "field_byte g"] True
    by (simp add: frame_mask_def)
  then have "set_field s (written_field c) v ! field_byte g AND field_mask g
          = s ! field_byte g AND field_mask g"
    using d by (rule disjoint_bits_agree)
  then show ?thesis
    by (simp only: get_field_via_mask)
qed

text \<open>
  C5: for every state and every documented setter call (\<^verbatim>\<open>setPower\<close>, \<^verbatim>\<open>setMode\<close>,
  \<^verbatim>\<open>setTemp\<close>, \<^verbatim>\<open>setFan\<close>, \<^verbatim>\<open>setTurbo\<close>, \<^verbatim>\<open>setEcono\<close>, \<^verbatim>\<open>setWifi\<close>, \<^verbatim>\<open>setLight\<close>), the
  state keeps its length, every bit of every byte outside the positions of the field
  being written is unchanged, and hence every other declared field (reserved, unknown
  and timer fields included) reads the same before and after; \<^verbatim>\<open>stateReset\<close> is what
  zeroes all ten bytes.
\<close>

theorem setters_keep_other_bits:
  "length (run_setter K c s) = length s
   \<and> (\<forall>i. run_setter K c s ! i AND NOT (frame_mask (written_field c) i)
             = s ! i AND NOT (frame_mask (written_field c) i))
   \<and> (\<forall>g. g \<noteq> written_field c \<longrightarrow> get_field (run_setter K c s) g = get_field s g)
   \<and> (\<forall>i<10. stateReset ! i = 0)"
proof -
  obtain v where r: "run_setter K c s = set_field s (written_field c) v"
    using run_setter_eq by blast
  have "\<forall>i<10. stateReset ! i = 0"
    by (simp add: stateReset_def kVoltasStateLength_def)
  then show ?thesis
    unfolding r by (simp add: length_set_field set_field_frame get_other_field)
qed


lemma run_setTemp_fixture:
  "run_setter example_consts (SetTemp 25) fixture
     = [0x33, 0x28, 0x88, 0x19, 0x3B, 0x3B, 0x3B, 0x11, 0x00, 0x40]"
  by (simp add: setTemp_def example_consts_def fixture_def set_field_def field_mask_def
        mask_numeral)

theorem setters_keep_other_bits_witness:
  "length (run_setter example_consts (SetTemp 25) fixture) = length fixture
   \<and> run_setter example_consts (SetTemp 25) fixture ! 3
        AND NOT (frame_mask (written_field (SetTemp 25)) 3)
      = fixture ! 3 AND NOT (frame_mask (written_field (SetTemp 25)) 3)
   \<and> TimerHrs \<noteq> written_field (SetTemp 25)
   \<and> get_field (run_setter example_consts (SetTemp 25) fixture) TimerHrs
      = get_field fixture TimerHrs
   \<and> (9 :: nat) < 10 \<and> stateReset ! 9 = 0
   \<and> run_setter example_consts (SetTemp 25) fixture
      = [0x33, 0x28, 0x88, 0x19, 0x3B, 0x3B, 0x3B, 0x11, 0x00, 0x40]"
proof -
  note t = setters_keep_other_bits [of example_consts "SetTemp 25" fixture]
  have h1: "TimerHrs \<noteq> written_field (SetTemp 25)"
    by simp
  have h2: "(9 :: nat) < 10"
    by simp
  from t h1 h2 run_setTemp_fixture show ?thesis
    by blast
qed

section \<open>Temperature\<close>

lemma fits_in_field: "(v :: byte) < 2 ^ w \<Longrightarrow> v AND mask w = v"
  by (rule less_mask_eq)

lemma byte_le_255: "(x :: byte) \<le> 255"
proof -
  have "(255 :: byte) = - 1"
    by simp
  then show ?thesis
    by (simp only: word_n1_ge)
qed

lemma clamp_bounds:
  fixes lo hi t :: byte
  assumes "lo \<le> hi"
  shows "lo \<le> min hi (max lo t)" and "min hi (max lo t) \<le> hi"
  using assms by (auto simp: min_def max_def)

lemma clamp_offset_small:
  fixes lo hi t :: byte
  assumes "lo \<le> hi" and "hi - lo < 16"
  shows "min hi (max lo t) - lo < 16"
proof -
  have "unat (min hi (max lo t) - lo) = unat (min hi (max lo t)) - unat lo"
    using clamp_bounds(1) [OF assms(1)] by (rule unat_sub)
  also have "\<dots> \<le> unat hi - unat lo"
    using clamp_bounds(2) [OF assms(1), of t] by (simp add: word_le_nat_alt diff_le_mono)
  also have "\<dots> = unat (hi - lo)"
    using assms(1) by (simp add: unat_sub)
  finally show ?thesis
    using assms(2) by (simp add: word_less_nat_alt)
qed

text \<open>
  C6: \<^verbatim>\<open>setTemp(t)\<close> stores \<open>min MaxTemp (max MinTemp t) - MinTemp\<close> in the 4-bit field
  \<open>Temp\<close>, and \<^verbatim>\<open>getTemp\<close> returns the stored field plus \<open>MinTemp\<close>; \<^verbatim>\<open>setTemp(0)\<close> then
  \<^verbatim>\<open>getTemp()\<close> is \<open>MinTemp\<close>, \<^verbatim>\<open>setTemp(255)\<close> then \<^verbatim>\<open>getTemp()\<close> is \<open>MaxTemp\<close>. The two
  constants are parameters; the statement is for constants with
  \<open>MinTemp \<le> MaxTemp\<close> whose distance fits the four bits of the field.
\<close>

theorem setTemp_getTemp:
  assumes "kVoltasMinTemp K \<le> kVoltasMaxTemp K"
    and "kVoltasMaxTemp K - kVoltasMinTemp K < 16"
    and "length s = 10"
  shows "get_field (setTemp K t s) Temp
           = min (kVoltasMaxTemp K) (max (kVoltasMinTemp K) t) - kVoltasMinTemp K
         \<and> getTemp K (setTemp K t s) = get_field (setTemp K t s) Temp + kVoltasMinTemp K
         \<and> getTemp K (setTemp K 0 s) = kVoltasMinTemp K
         \<and> getTemp K (setTemp K 255 s) = kVoltasMaxTemp K"
proof -
  have stored: "get_field (setTemp K u s) Temp
                  = min (kVoltasMaxTemp K) (max (kVoltasMinTemp K) u) - kVoltasMinTemp K" for u
  proof -
    have "min (kVoltasMaxTemp K) (max (kVoltasMinTemp K) u) - kVoltasMinTemp K < 2 ^ 4"
      using clamp_offset_small [OF assms(1,2), of u] by simp
    then show ?thesis
      using assms(3) by (simp add: setTemp_def get_set_field fits_in_field)
  qed
  have lo: "min (kVoltasMaxTemp K) (max (kVoltasMinTemp K) 0) = kVoltasMinTemp K"
    using assms(1) by (simp add: max_def min_def)
  have "max (kVoltasMinTemp K) 255 = 255"
    using byte_le_255 [of "kVoltasMinTemp K"] by (simp add: max_def)
  then have hi: "min (kVoltasMaxTemp K) (max (kVoltasMinTemp K) 255) = kVoltasMaxTemp K"
    using byte_le_255 [of "kVoltasMaxTemp K"] by (simp add: min_def)
  have "getTemp K (setTemp K 0 s) = kVoltasMinTemp K"
    by (simp only: getTemp_def stored lo) simp
  moreover have "getTemp K (setTemp K 255 s) = kVoltasMaxTemp K"
    by (simp only: getTemp_def stored hi) simp
  ultimately show ?thesis
    by (simp only: stored) (simp add: getTemp_def stored)
qed

theorem setTemp_getTemp_witness:
  "kVoltasMinTemp example_consts \<le> kVoltasMaxTemp example_consts
   \<and> kVoltasMaxTemp example_consts - kVoltasMinTemp example_consts < 16
   \<and> length fixture = 10
   \<and> get_field (setTemp example_consts 21 fixture) Temp = 5
   \<and> getTemp example_consts (setTemp example_consts 21 fixture) = 21
   \<and> getTemp example_consts (setTemp example_consts 0 fixture) = 16
   \<and> getTemp example_consts (setTemp example_consts 255 fixture) = 30"
  using setTemp_getTemp [of example_consts fixture 21]
  by (simp add: example_consts_def fixture_def)

section \<open>Mode and fan speed\<close>

text \<open>
  C7: after \<^verbatim>\<open>setMode(m)\<close> the stored mode is \<open>m\<close> if \<open>m\<close> is one of Fan, Heat, Dry and
  Cool, and Cool otherwise; after \<^verbatim>\<open>setFan(f)\<close> the stored fan speed is \<open>f\<close> if \<open>f\<close> is
  one of Low, Med, High and Auto, and Auto otherwise; \<^verbatim>\<open>getMode\<close> and \<^verbatim>\<open>getFan\<close> return
  the bits of the field as they are in byte 1, whatever they are. The constants are
  parameters; the statement is for mode constants that fit the four bits and fan
  constants that fit the three bits of their fields.
\<close>

theorem setMode_setFan_remap:
  assumes "length s = 10"
    and "kVoltasFan K < 16" "kVoltasHeat K < 16" "kVoltasDry K < 16" "kVoltasCool K < 16"
    and "kVoltasFanLow K < 8" "kVoltasFanMed K < 8" "kVoltasFanHigh K < 8"
        "kVoltasFanAuto K < 8"
  shows "getMode (setMode K m s)
           = (if m \<in> {kVoltasFan K, kVoltasHeat K, kVoltasDry K, kVoltasCool K}
              then m else kVoltasCool K)
         \<and> getFan (setFan K f s)
           = (if f \<in> {kVoltasFanLow K, kVoltasFanMed K, kVoltasFanHigh K, kVoltasFanAuto K}
              then f else kVoltasFanAuto K)
         \<and> getMode s = s ! 1 AND 0x0F
         \<and> getFan s = drop_bit 5 (s ! 1)"
proof -
  have m4: "v < 16 \<Longrightarrow> v AND mask 4 = v" and m3: "v < 8 \<Longrightarrow> v AND mask 3 = v" for v :: byte
    using less_mask_eq [of v 4] less_mask_eq [of v 3] by simp_all
  have 1: "getMode (setMode K m s)
           = (if m \<in> {kVoltasFan K, kVoltasHeat K, kVoltasDry K, kVoltasCool K}
              then m else kVoltasCool K)"
    using assms(1-5) by (auto simp: getMode_def setMode_eq get_set_field m4)
  have 2: "getFan (setFan K f s)
           = (if f \<in> {kVoltasFanLow K, kVoltasFanMed K, kVoltasFanHigh K, kVoltasFanAuto K}
              then f else kVoltasFanAuto K)"
    using assms(1,6-9) by (auto simp: getFan_def setFan_eq get_set_field m3)
  have 3: "getMode s = s ! 1 AND 0x0F"
    by (simp add: getMode_def get_field_def mask_numeral)
  have "drop_bit 5 x AND mask 3 = drop_bit 5 x" for x :: byte
    by (rule bit_eqI) (auto simp: bit_simps dest: bit_imp_le_length)
  then have 4: "getFan s = drop_bit 5 (s ! 1)"
    by (simp add: getFan_def get_field_def)
  from 1 2 3 4 show ?thesis
    by (simp only: simp_thms)
qed

theorem setMode_setFan_remap_witness:
  "length fixture = 10
   \<and> kVoltasFan example_consts < 16 \<and> kVoltasHeat example_consts < 16
   \<and> kVoltasDry example_consts < 16 \<and> kVoltasCool example_consts < 16
   \<and> kVoltasFanLow example_consts < 8 \<and> kVoltasFanMed example_consts < 8
   \<and> kVoltasFanHigh example_consts < 8 \<and> kVoltasFanAuto example_consts < 8
   \<and> getMode (setMode example_consts 0xFF fixture) = 8
   \<and> getMode (setMode example_consts 2 fixture) = 2
   \<and> getFan (setFan example_consts 0xFF fixture) = 7
   \<and> getFan (setFan example_consts 4 fixture) = 4
   \<and> getMode fixture = 8 \<and> getFan fixture = 1"
  using setMode_setFan_remap [where s = fixture and K = example_consts and m = 255 and f = 255]
    setMode_setFan_remap [where s = fixture and K = example_consts and m = 2 and f = 4]
  by (simp add: example_consts_def fixture_def)


text \<open>
  C8: \<^verbatim>\<open>convertFan\<close> maps Min and Low to native Low, Medium to Med, High and Max to
  High and every other speed (Auto included) to Auto; \<^verbatim>\<open>toCommonFanSpeed\<close> maps native
  High to Max, Med to Medium, Low to Min and every other byte (Auto included) to Auto;
  the two are not inverse to each other: Low comes back as Min and High as Max. The
  native constants are parameters, pairwise different as the labels of a switch are.
\<close>

theorem fan_conversions:
  assumes "distinct [kVoltasFanHigh K, kVoltasFanMed K, kVoltasFanLow K, kVoltasFanAuto K]"
  shows "convertFan K kMin = kVoltasFanLow K \<and> convertFan K kLow = kVoltasFanLow K
         \<and> convertFan K kMedium = kVoltasFanMed K
         \<and> convertFan K kHigh = kVoltasFanHigh K \<and> convertFan K kMax = kVoltasFanHigh K
         \<and> (\<forall>speed. speed \<notin> {kMin, kLow, kMedium, kHigh, kMax}
                \<longrightarrow> convertFan K speed = kVoltasFanAuto K)
         \<and> convertFan K kAuto = kVoltasFanAuto K
         \<and> toCommonFanSpeed K (kVoltasFanHigh K) = kMax
         \<and> toCommonFanSpeed K (kVoltasFanMed K) = kMedium
         \<and> toCommonFanSpeed K (kVoltasFanLow K) = kMin
         \<and> (\<forall>spd. spd \<notin> {kVoltasFanHigh K, kVoltasFanMed K, kVoltasFanLow K}
                \<longrightarrow> toCommonFanSpeed K spd = kAuto)
         \<and> toCommonFanSpeed K (kVoltasFanAuto K) = kAuto
         \<and> toCommonFanSpeed K (convertFan K kLow) \<noteq> kLow
         \<and> toCommonFanSpeed K (convertFan K kHigh) \<noteq> kHigh"
proof -
  have "convertFan K speed = kVoltasFanAuto K"
    if "speed \<notin> {kMin, kLow, kMedium, kHigh, kMax}" for speed
    using that by (cases speed) simp_all
  then show ?thesis
    using assms by (auto simp: toCommonFanSpeed_def)
qed

theorem fan_conversions_witness:
  "distinct [kVoltasFanHigh example_consts, kVoltasFanMed example_consts,
             kVoltasFanLow example_consts, kVoltasFanAuto example_consts]
   \<and> convertFan example_consts kMin = 4 \<and> convertFan example_consts kMax = 1
   \<and> kAuto \<notin> {kMin, kLow, kMedium, kHigh, kMax} \<and> convertFan example_consts kAuto = 7
   \<and> toCommonFanSpeed example_consts 1 = kMax
   \<and> (0 :: byte) \<notin> {kVoltasFanHigh example_consts, kVoltasFanMed example_consts,
                        kVoltasFanLow example_consts}
   \<and> toCommonFanSpeed example_consts 0 = kAuto
   \<and> toCommonFanSpeed example_consts (convertFan example_consts kLow) = kMin"
  using fan_conversions [of example_consts]
  by (simp add: example_consts_def toCommonFanSpeed_def)

section \<open>The summary\<close>

lemma toCommon_never_assigns:
  "mode (toCommon K s) = None \<and> swingv (toCommon K s) = None
   \<and> clean (toCommon K s) = None \<and> sleep (toCommon K s) = None"
  by (simp add: toCommon_def unassigned_def)

text \<open>
  C9: \<^verbatim>\<open>toCommon\<close> is to set every unsupported field of the summary (mode, vertical and
  horizontal swing, clean, sleep, quiet, filter, beep, clock, model) to an explicit
  sentinel. The code does not: on the reset state (and on every other state, by
  \<open>toCommon_never_assigns\<close>) it assigns \<^verbatim>\<open>model\<close>, \<^verbatim>\<open>swingh\<close>, \<^verbatim>\<open>quiet\<close>, \<^verbatim>\<open>filter\<close>,
  \<^verbatim>\<open>beep\<close> and \<^verbatim>\<open>clock\<close>, and never assigns \<^verbatim>\<open>mode\<close>, \<^verbatim>\<open>swingv\<close>, \<^verbatim>\<open>clean\<close> and \<^verbatim>\<open>sleep\<close>.
\<close>

theorem toCommon_leaves_fields_unassigned:
  "toCommon example_consts stateReset =
     \<lparr>protocol = Some VOLTAS, model = Some (- 1), power = Some False, mode = None,
      degrees = Some 16, celsius = Some True, fanspeed = Some kAuto, swingv = None,
      swingh = Some swingh_kOff, quiet = Some False, turbo = Some False,
      econo = Some False, light = Some False, filter_fld = Some False, clean = None,
      beep = Some False, sleep = None, clock = Some (- 1)\<rparr>"
  by (simp add: toCommon_def unassigned_def stateReset_eq getTemp_def get_field_def
        get_flag_def toCommonFanSpeed_def example_consts_def)

section \<open>Reading the temperature of a foreign state\<close>

lemma setRaw_nth: "10 \<le> length X \<Longrightarrow> i < 10 \<Longrightarrow> setRaw X ! i = X ! i"
  by (simp add: setRaw_def kVoltasStateLength_def)

lemma nibble_small: "unat (x AND 0x0F :: byte) \<le> 15"
proof -
  have "x AND 0x0F \<le> 0x0F"
    by (rule word_and_le1)
  then show ?thesis
    by (simp add: word_le_nat_alt)
qed

text \<open>
  C10: for every buffer of at least ten bytes installed with \<^verbatim>\<open>setRaw\<close>, \<^verbatim>\<open>getTemp\<close>
  returns the low nibble of byte 3 plus \<open>MinTemp\<close>, without clamping: when the nibble
  exceeds \<open>MaxTemp - MinTemp\<close>, the value returned is strictly greater than \<open>MaxTemp\<close>
  (for a \<open>MinTemp\<close> of at most 240, so that the 8-bit sum does not wrap).
\<close>

theorem getTemp_unvalidated:
  assumes "10 \<le> length X"
  shows "getTemp K (setRaw X) = (X ! 3 AND 0x0F) + kVoltasMinTemp K
         \<and> (unat (kVoltasMinTemp K) + 15 < 256
              \<and> uint (kVoltasMaxTemp K) - uint (kVoltasMinTemp K) < uint (X ! 3 AND 0x0F)
            \<longrightarrow> kVoltasMaxTemp K < getTemp K (setRaw X))"
proof -
  let ?n = "X ! 3 AND 0x0F"
  have g: "getTemp K (setRaw X) = ?n + kVoltasMinTemp K"
    using assms by (simp add: getTemp_def get_field_def setRaw_nth mask_numeral)
  have "kVoltasMaxTemp K < ?n + kVoltasMinTemp K"
    if nowrap: "unat (kVoltasMinTemp K) + 15 < 256"
      and above: "uint (kVoltasMaxTemp K) - uint (kVoltasMinTemp K) < uint ?n"
  proof -
    have "unat ?n + unat (kVoltasMinTemp K) < 2 ^ LENGTH(8)"
      using nowrap nibble_small [of "X ! 3"] by simp
    then have "unat (?n + kVoltasMinTemp K) = unat ?n + unat (kVoltasMinTemp K)"
      by (simp only: unat_add_lem)
    moreover have "unat (kVoltasMaxTemp K) < unat ?n + unat (kVoltasMinTemp K)"
      using above unfolding uint_nat by linarith
    ultimately show ?thesis
      by (simp add: word_less_nat_alt)
  qed
  with g show ?thesis
    by simp
qed

theorem getTemp_unvalidated_witness:
  "10 \<le> length [0x33, 0x28, 0x88, 0x1F, 0x3B, 0x3B, 0x3B, 0x11, 0x00, 0x40 :: byte]
   \<and> unat (kVoltasMinTemp example_consts) + 15 < 256
   \<and> uint (kVoltasMaxTemp example_consts) - uint (kVoltasMinTemp example_consts)
        < uint (0x1F AND 0x0F :: byte)
   \<and> getTemp example_consts (setRaw [0x33, 0x28, 0x88, 0x1F, 0x3B, 0x3B, 0x3B, 0x11, 0x00, 0x40])
        = 31
   \<and> kVoltasMaxTemp example_consts
        < getTemp example_consts (setRaw [0x33, 0x28, 0x88, 0x1F, 0x3B, 0x3B, 0x3B, 0x11, 0x00, 0x40])"
  using getTemp_unvalidated
    [of "[0x33, 0x28, 0x88, 0x1F, 0x3B, 0x3B, 0x3B, 0x11, 0x00, 0x40]" example_consts]
  by (simp add: example_consts_def)

end
